theory Spec2Isabelle
  imports Main
begin

section \<open>JavaScript values\<close>

text \<open>
  The Voyager client works on untyped JSON trees and builds plain objects from them, so
  raw payloads and normalized records live in one type of values.

  \<^item> An object is the list of its own enumerable properties in the order in which
    \<^verbatim>\<open>Object.keys\<close> enumerates them; keys are distinct, and a lookup takes the
    first binding.
  \<^item> A number is a double with an integer value (\<open>JNum n\<close>, where \<open>n\<close> is the value
    of the double), an infinity (\<open>JInf negative\<close>) or \<open>JNaN\<close>. The program only
    copies numbers, tests and prints them, and produces them with \<^verbatim>\<open>parseInt\<close>,
    which yields no fraction; fractions in raw data are left out. Where a number is
    printed, an integer that is no double stands for the double nearest to it.
  \<^item> A string is a list of code units below 256 (the Latin-1 range of the 16-bit code
    units of a JavaScript string).
\<close>

datatype jsval =
    JUndef
  | JNull
  | JBool bool
  | JNum int
  | JInf bool
  | JNaN
  | JStr string
  | JArr "jsval list"
  | JObj "(string \<times> jsval) list"

text \<open>
  Every exception of the program is a value. \<open>TypeError\<close> is what the engine throws
  on a property read of \<^verbatim>\<open>undefined\<close>/\<^verbatim>\<open>null\<close> or on a call of something that
  is not a function; \<open>Error msg\<close> is \<^verbatim>\<open>new Error(msg)\<close>. \<open>Unmodelled\<close> marks what
  this development does not follow, the assignment of a \<^verbatim>\<open>__proto__\<close> key in
  \<open>object_assign\<close> and of a named property to an array in \<open>assign_raw\<close>: nothing is
  claimed about the program there.
\<close>

datatype error = TypeError | Error string | Unmodelled

type_synonym 'a result = "error + 'a"

definition bnd :: "'a result \<Rightarrow> ('a \<Rightarrow> 'b result) \<Rightarrow> 'b result" where
  "bnd m f = (case m of Inl e \<Rightarrow> Inl e | Inr x \<Rightarrow> f x)"

text \<open>\<^verbatim>\<open>xs.map(f)\<close> with a callback that may throw: the first exception ends the loop.\<close>

fun mapM :: "('a \<Rightarrow> 'b result) \<Rightarrow> 'a list \<Rightarrow> 'b list result" where
  "mapM f [] = Inr []"
| "mapM f (x # xs) =
     (case f x of
        Inl e \<Rightarrow> Inl e
      | Inr y \<Rightarrow> (case mapM f xs of Inl e \<Rightarrow> Inl e | Inr ys \<Rightarrow> Inr (y # ys)))"

text \<open>\<^verbatim>\<open>xs.filter(p)\<close> with a predicate that may throw.\<close>

fun filterM :: "('a \<Rightarrow> bool result) \<Rightarrow> 'a list \<Rightarrow> 'a list result" where
  "filterM p [] = Inr []"
| "filterM p (x # xs) =
     (case p x of
        Inl e \<Rightarrow> Inl e
      | Inr b \<Rightarrow> (case filterM p xs of
                    Inl e \<Rightarrow> Inl e
                  | Inr ys \<Rightarrow> Inr (if b then x # ys else ys)))"

subsection \<open>Truthiness, \<^verbatim>\<open>||\<close> and \<^verbatim>\<open>===\<close>\<close>

fun truthy :: "jsval \<Rightarrow> bool" where
  "truthy JUndef = False"
| "truthy JNull = False"
| "truthy (JBool b) = b"
| "truthy (JNum n) = (n \<noteq> 0)"
| "truthy (JInf negative) = True"
| "truthy JNaN = False"
| "truthy (JStr s) = (s \<noteq> [])"
| "truthy (JArr xs) = True"
| "truthy (JObj kvs) = True"

text \<open>\<^verbatim>\<open>a || b\<close> where \<open>b\<close> is a literal (its evaluation has no effect).\<close>

definition or_else :: "jsval \<Rightarrow> jsval \<Rightarrow> jsval" where
  "or_else a b = (if truthy a then a else b)"

text \<open>
  \<^verbatim>\<open>a === b\<close>. Arrays and objects compare by reference; the two operands the program
  compares are read from different nodes of a parsed JSON tree (or are fresh literals),
  so two of them are never the same reference.
\<close>

fun strict_eq :: "jsval \<Rightarrow> jsval \<Rightarrow> bool" where
  "strict_eq JUndef JUndef = True"
| "strict_eq JNull JNull = True"
| "strict_eq (JBool a) (JBool b) = (a = b)"
| "strict_eq (JNum a) (JNum b) = (a = b)"
| "strict_eq (JInf a) (JInf b) = (a = b)"
| "strict_eq (JStr a) (JStr b) = (a = b)"
| "strict_eq _ _ = False"

subsection \<open>Decimal digits\<close>

definition is_digit :: "char \<Rightarrow> bool" where
  "is_digit c = (c \<in> set ''0123456789'')"

definition digit_val :: "char \<Rightarrow> nat" where
  "digit_val c = of_char c - 48"

definition dec :: "string \<Rightarrow> nat" where
  "dec ds = foldl (\<lambda>a c. 10 * a + digit_val c) 0 ds"

definition digit_char :: "nat \<Rightarrow> char" where
  "digit_char d = char_of (48 + d)"

fun show_nat :: "nat \<Rightarrow> string" where
  "show_nat n = (if n < 10 then [digit_char n] else show_nat (n div 10) @ [digit_char (n mod 10)])"

declare show_nat.simps [simp del]

subsection \<open>Doubles\<close>

text \<open>
  The double nearest to a natural number, ties going to the even mantissa of 53 bits;
  \<open>None\<close> is \<^verbatim>\<open>Infinity\<close>. Every number up to \<open>2^53\<close> is a double.
\<close>

fun bit_length :: "nat \<Rightarrow> nat" where
  "bit_length n = (if n = 0 then 0 else Suc (bit_length (n div 2)))"

declare bit_length.simps [simp del]

definition to_double :: "nat \<Rightarrow> nat option" where
  "to_double n =
     (if n < 2 ^ 53 then Some n
      else
        let e = bit_length n - 53;
            q = n div 2 ^ e;
            r = n mod 2 ^ e;
            half = 2 ^ (e - 1);
            q' = (if half < r \<or> (r = half \<and> odd q) then q + 1 else q);
            v = q' * 2 ^ e
        in if 2 ^ 1024 \<le> v then None else Some v)"

text \<open>
  Number::toString for a double \<open>x\<close> with an integer value: the digits \<open>s\<close>, as few
  (\<open>k\<close>) as possible, such that \<open>s * 10^(n - k)\<close> is a number whose nearest double is
  \<open>x\<close>; among several the one nearest to \<open>x\<close>, then the even one. Up to 21 digits
  the number is written out, beyond that with an exponent. Below \<open>2^53\<close> these are
  the digits of \<open>x\<close> itself.
\<close>

definition candidates :: "nat \<Rightarrow> nat \<Rightarrow> (nat \<times> nat) list" where
  "candidates x k =
     (let d = length (show_nat x)
      in concat (map (\<lambda>n.
           if n < k then []
           else let m = 10 ^ (n - k)
                in filter (\<lambda>(s, n'). 10 ^ (k - 1) \<le> s \<and> s < 10 ^ k \<and>
                                     to_double (s * m) = Some x)
                     [(x div m, n), (x div m + 1, n)])
         [d, d + 1]))"

definition distance :: "nat \<Rightarrow> nat \<Rightarrow> nat \<Rightarrow> nat \<Rightarrow> nat" where
  "distance x k s n = (let v = s * 10 ^ (n - k) in if v < x then x - v else v - x)"

fun closest :: "nat \<Rightarrow> nat \<Rightarrow> (nat \<times> nat) list \<Rightarrow> (nat \<times> nat) option" where
  "closest x k [] = None"
| "closest x k ((s, n) # cs) =
     (case closest x k cs of
        None \<Rightarrow> Some (s, n)
      | Some (s', n') \<Rightarrow>
          if distance x k s n < distance x k s' n' \<or>
             (distance x k s n = distance x k s' n' \<and> even s)
          then Some (s, n) else Some (s', n'))"

fun shortest :: "nat \<Rightarrow> nat list \<Rightarrow> (nat \<times> nat \<times> nat) option" where
  "shortest x [] = None"
| "shortest x (k # ks) =
     (case closest x k (candidates x k) of
        Some (s, n) \<Rightarrow> Some (k, s, n)
      | None \<Rightarrow> shortest x ks)"

definition show_double :: "nat \<Rightarrow> string" where
  "show_double x =
     (if x < 2 ^ 53 then show_nat x
      else (case shortest x [1..<18] of
              None \<Rightarrow> show_nat x
            | Some (k, s, n) \<Rightarrow>
                let ds = show_nat s
                in if n \<le> 21 then ds @ replicate (n - k) CHR ''0''
                   else (if k = 1 then ds else hd ds # CHR ''.'' # tl ds)
                        @ ''e+'' @ show_nat (n - 1)))"

definition show_number :: "int \<Rightarrow> string" where
  "show_number i =
     (case to_double (nat \<bar>i\<bar>) of
        None \<Rightarrow> (if i < 0 then ''-Infinity'' else ''Infinity'')
      | Some x \<Rightarrow> (if i < 0 then CHR ''-'' # show_double x else show_double x))"

text \<open>
  An array index as a property name: the canonical decimal numeral of a number below
  the length.
\<close>

definition is_index :: "string \<Rightarrow> nat \<Rightarrow> bool" where
  "is_index k n = (k \<noteq> [] \<and> list_all is_digit k \<and> (k = ''0'' \<or> hd k \<noteq> CHR ''0'') \<and> dec k < n)"

subsection \<open>Property access\<close>

definition lookup :: "(string \<times> jsval) list \<Rightarrow> string \<Rightarrow> jsval" where
  "lookup kvs k = (case map_of kvs k of None \<Rightarrow> JUndef | Some v \<Rightarrow> v)"

definition has_key :: "(string \<times> jsval) list \<Rightarrow> string \<Rightarrow> bool" where
  "has_key kvs k = (map_of kvs k \<noteq> None)"

text \<open>
  \<^verbatim>\<open>v.k\<close> and \<^verbatim>\<open>v[k]\<close> for a data property \<open>k\<close>: an own property of an object, an
  index or the length of an array or string. The names the program reads this way
  (\<^verbatim>\<open>title\<close>, \<^verbatim>\<open>member\<close>, \<^verbatim>\<open>id\<close>, ...) are none of the names that the built-in
  prototypes define, so a name that is not an own property reads as \<^verbatim>\<open>undefined\<close>.
\<close>

fun getField :: "jsval \<Rightarrow> string \<Rightarrow> jsval result" where
  "getField JUndef k = Inl TypeError"
| "getField JNull k = Inl TypeError"
| "getField (JObj kvs) k = Inr (lookup kvs k)"
| "getField (JArr xs) k =
     Inr (if is_index k (length xs) then xs ! dec k
          else if k = ''length'' then JNum (int (length xs)) else JUndef)"
| "getField (JStr s) k =
     Inr (if is_index k (length s) then JStr [s ! dec k]
          else if k = ''length'' then JNum (int (length s)) else JUndef)"
| "getField _ k = Inr JUndef"

text \<open>
  \<^verbatim>\<open>v.hasOwnProperty(k)\<close>. The method is inherited from \<^verbatim>\<open>Object.prototype\<close>; an
  object with an own property of that name holds JSON data there, and calling it is a
  TypeError.
\<close>

fun hasOwnProperty :: "jsval \<Rightarrow> string \<Rightarrow> bool result" where
  "hasOwnProperty JUndef k = Inl TypeError"
| "hasOwnProperty JNull k = Inl TypeError"
| "hasOwnProperty (JObj kvs) k =
     (if has_key kvs ''hasOwnProperty'' then Inl TypeError else Inr (has_key kvs k))"
| "hasOwnProperty (JArr xs) k = Inr (is_index k (length xs) \<or> k = ''length'')"
| "hasOwnProperty (JStr s) k = Inr (is_index k (length s) \<or> k = ''length'')"
| "hasOwnProperty _ k = Inr False"

text \<open>
  \<^verbatim>\<open>v.constructor !== Object\<close>. Only an object without an own \<^verbatim>\<open>constructor\<close>
  property inherits \<^verbatim>\<open>Object\<close> there.
\<close>

fun constructor_not_Object :: "jsval \<Rightarrow> bool result" where
  "constructor_not_Object JUndef = Inl TypeError"
| "constructor_not_Object JNull = Inl TypeError"
| "constructor_not_Object (JObj kvs) = Inr (has_key kvs ''constructor'')"
| "constructor_not_Object _ = Inr True"

text \<open>
  \<^verbatim>\<open>Object.keys(v)[0]\<close>: \<open>None\<close> is \<^verbatim>\<open>undefined\<close> (no key). Arrays and strings
  enumerate their indices.
\<close>

fun first_key :: "jsval \<Rightarrow> string option result" where
  "first_key JUndef = Inl TypeError"
| "first_key JNull = Inl TypeError"
| "first_key (JObj kvs) = Inr (case kvs of [] \<Rightarrow> None | (k, _) # _ \<Rightarrow> Some k)"
| "first_key (JArr xs) = Inr (if xs = [] then None else Some ''0'')"
| "first_key (JStr s) = Inr (if s = [] then None else Some ''0'')"
| "first_key _ = Inr None"

text \<open>\<^verbatim>\<open>v[key]\<close> for such a key: \<^verbatim>\<open>undefined\<close> as a property name is the string "undefined".\<close>

definition getProp :: "jsval \<Rightarrow> string option \<Rightarrow> jsval result" where
  "getProp v key = getField v (case key of None \<Rightarrow> ''undefined'' | Some k \<Rightarrow> k)"

text \<open>
  Assignment \<^verbatim>\<open>o.k = v\<close> to an object under construction: an existing property keeps
  its place, a new one is appended.
\<close>

fun set_field :: "(string \<times> jsval) list \<Rightarrow> string \<Rightarrow> jsval \<Rightarrow> (string \<times> jsval) list" where
  "set_field [] k v = [(k, v)]"
| "set_field ((k', v') # kvs) k v =
     (if k' = k then (k, v) # kvs else (k', v') # set_field kvs k v)"

subsection \<open>Conversion to string\<close>

text \<open>
  \<^verbatim>\<open>`${v}`\<close>: ToString. An array is joined with commas, \<^verbatim>\<open>undefined\<close> and
  \<^verbatim>\<open>null\<close> elements printing as nothing; an object prints through
  \<^verbatim>\<open>Object.prototype.toString\<close>, unless an own \<^verbatim>\<open>toString\<close> property (JSON data, not
  callable) hides it, which is a TypeError.
\<close>

fun toString :: "jsval \<Rightarrow> string result"
  and join_elems :: "jsval list \<Rightarrow> string result" where
  "toString JUndef = Inr ''undefined''"
| "toString JNull = Inr ''null''"
| "toString (JBool b) = Inr (if b then ''true'' else ''false'')"
| "toString (JNum n) = Inr (show_number n)"
| "toString (JInf negative) = Inr (if negative then ''-Infinity'' else ''Infinity'')"
| "toString JNaN = Inr ''NaN''"
| "toString (JStr s) = Inr s"
| "toString (JArr xs) = join_elems xs"
| "toString (JObj kvs) =
     (if has_key kvs ''toString'' then Inl TypeError else Inr ''[object Object]'')"
| "join_elems [] = Inr []"
| "join_elems (x # xs) =
     (case (if x = JUndef \<or> x = JNull then Inr [] else toString x) of
        Inl e \<Rightarrow> Inl e
      | Inr a \<Rightarrow>
          (if xs = [] then Inr a
           else (case join_elems xs of Inl e \<Rightarrow> Inl e | Inr b \<Rightarrow> Inr (a @ '','' @ b))))"

subsection \<open>String methods\<close>

text \<open>\<^verbatim>\<open>s.split(c)\<close> for a one-character separator: never empty.\<close>

fun split_on :: "char \<Rightarrow> string \<Rightarrow> string list" where
  "split_on c [] = [[]]"
| "split_on c (x # xs) =
     (if x = c then [] # split_on c xs
      else (case split_on c xs of [] \<Rightarrow> [[x]] | p # ps \<Rightarrow> (x # p) # ps))"

text \<open>\<^verbatim>\<open>s.indexOf(pat)\<close>: \<open>None\<close> is \<open>-1\<close>.\<close>

fun index_of :: "string \<Rightarrow> string \<Rightarrow> nat option" where
  "index_of pat [] = (if pat = [] then Some 0 else None)"
| "index_of pat (x # xs) =
     (if take (length pat) (x # xs) = pat then Some 0
      else map_option Suc (index_of pat xs))"

text \<open>
  White space and line terminators among the code units below 256: tab, line feed,
  vertical tab, form feed, carriage return, space and the no-break space.
\<close>

definition is_space :: "char \<Rightarrow> bool" where
  "is_space c =
     (c \<in> set [CHR '' '', CHR 0x09, CHR 0x0A, CHR 0x0B, CHR 0x0C, CHR 0x0D, CHR 0xA0])"

text \<open>
  \<^verbatim>\<open>parseInt(s, 10)\<close>: leading white space, an optional sign, then the longest run of
  decimal digits; \<^verbatim>\<open>NaN\<close> when there is no digit, and otherwise the double nearest to
  the integer that the digits denote. (The standard lets an engine replace the digits
  after the 20th by zeros before it rounds; V8, for which the client is written, rounds
  the integer itself.)
\<close>

definition parseInt :: "string \<Rightarrow> jsval" where
  "parseInt s =
     (let t = dropWhile is_space s;
          neg = (t \<noteq> [] \<and> hd t = CHR ''-'');
          u = (if t \<noteq> [] \<and> (hd t = CHR ''-'' \<or> hd t = CHR ''+'') then tl t else t);
          ds = takeWhile is_digit u
      in if ds = [] then JNaN
         else (case to_double (dec ds) of
                 None \<Rightarrow> JInf neg
               | Some x \<Rightarrow> JNum (if neg then - int x else int x)))"

text \<open>
  Whether the number that a string converts to (StringToNumber) is greater than 0. The
  string is trimmed; empty it is 0. A literal with the prefix 0x, 0o or 0b takes no
  sign. A decimal literal has an optional sign, digits with an optional fraction (one
  of the two parts may be missing) and an optional exponent; anything else is
  \<^verbatim>\<open>NaN\<close>. A positive decimal is greater than 0 as a double unless it rounds to 0,
  which it does up to \<open>2^-1075\<close>, half of the least positive double.
\<close>

definition trim :: "string \<Rightarrow> string" where
  "trim s = rev (dropWhile is_space (rev (dropWhile is_space s)))"

definition radix_positive :: "string \<Rightarrow> string \<Rightarrow> bool" where
  "radix_positive alphabet ds =
     (ds \<noteq> [] \<and> list_all (\<lambda>c. c \<in> set alphabet) ds \<and> \<not> list_all (\<lambda>c. c = CHR ''0'') ds)"

definition decimal_positive :: "string \<Rightarrow> bool" where
  "decimal_positive u =
     (let ip = takeWhile is_digit u;
          r1 = dropWhile is_digit u;
          dot = (r1 \<noteq> [] \<and> hd r1 = CHR ''.'');
          fp = (if dot then takeWhile is_digit (tl r1) else []);
          r2 = (if dot then dropWhile is_digit (tl r1) else r1);
          ex = (r2 \<noteq> [] \<and> (hd r2 = CHR ''e'' \<or> hd r2 = CHR ''E''));
          r3 = (if ex then tl r2 else r2);
          eneg = (r3 \<noteq> [] \<and> hd r3 = CHR ''-'');
          ed = (if ex \<and> r3 \<noteq> [] \<and> (hd r3 = CHR ''-'' \<or> hd r3 = CHR ''+'')
                then tl r3 else r3);
          wellformed = ((ip \<noteq> [] \<or> fp \<noteq> []) \<and>
                        (if ex then ed \<noteq> [] \<and> list_all is_digit ed else r2 = []));
          m = dec (ip @ fp);
          e = (if ex then (if eneg then - int (dec ed) else int (dec ed)) else 0)
                - int (length fp)
      in wellformed \<and> 0 < m \<and> (0 \<le> e \<or> 10 ^ nat (- e) < m * 2 ^ 1075))"

definition string_positive :: "string \<Rightarrow> bool" where
  "string_positive s =
     (let t = trim s
      in if take 2 t = ''0x'' \<or> take 2 t = ''0X''
         then radix_positive ''0123456789abcdefABCDEF'' (drop 2 t)
         else if take 2 t = ''0o'' \<or> take 2 t = ''0O'' then radix_positive ''01234567'' (drop 2 t)
         else if take 2 t = ''0b'' \<or> take 2 t = ''0B'' then radix_positive ''01'' (drop 2 t)
         else if t \<noteq> [] \<and> hd t = CHR ''-'' then False
         else let u = (if t \<noteq> [] \<and> hd t = CHR ''+'' then tl t else t)
              in u = ''Infinity'' \<or> decimal_positive u)"

section \<open>The Voyager client\<close>

definition BASE_URL :: string where
  "BASE_URL = ''https://www.linkedin.com/voyager/api''"

definition LI_CDN :: string where
  "LI_CDN = ''https://media-exp2.licdn.com/media''"

text \<open>
  The methods of the class keep their names without the leading underscore, which an
  Isabelle name cannot start with.
\<close>

text \<open>\<^verbatim>\<open>_scrubIdFromUrn(urn)\<close>\<close>

definition scrubIdFromUrn :: "jsval \<Rightarrow> jsval result" where
  "scrubIdFromUrn urn =
     (if \<not> truthy urn then Inr (JStr '''')
      else (case urn of
              JStr s \<Rightarrow> Inr (parseInt (last (split_on CHR '':'' s)))
            | _ \<Rightarrow> Inl TypeError))"

text \<open>\<^verbatim>\<open>_scrubPathToResource(resource)\<close>\<close>

definition scrubPathToResource :: "jsval \<Rightarrow> jsval result" where
  "scrubPathToResource resource =
     bnd (constructor_not_Object resource) (\<lambda>notObject.
       if notObject then Inr (JStr '''')
       else
         bnd (first_key resource) (\<lambda>key.
         bnd (getProp resource key) (\<lambda>variant.
         bnd (getField variant ''id'') (\<lambda>i.
           let resourcePath = or_else i (JStr '''')
           in if truthy resourcePath
              then bnd (toString resourcePath) (\<lambda>s. Inr (JStr (LI_CDN @ s)))
              else Inr resourcePath))))"

subsection \<open>Building and reading records\<close>

text \<open>
  A record under construction is the list of its properties. A step either assigns a
  property or does so under a guard; \<open>steps\<close> runs the statements of a method in
  order and stops at the first exception.
\<close>

type_synonym obj = "(string \<times> jsval) list"

fun steps :: "(obj \<Rightarrow> obj result) list \<Rightarrow> obj \<Rightarrow> obj result" where
  "steps [] ob = Inr ob"
| "steps (s # ss) ob = (case s ob of Inl e \<Rightarrow> Inl e | Inr ob' \<Rightarrow> steps ss ob')"

text \<open>\<^verbatim>\<open>ob.k = e\<close>\<close>

definition assign :: "string \<Rightarrow> jsval result \<Rightarrow> obj \<Rightarrow> obj result" where
  "assign k e ob = bnd e (\<lambda>v. Inr (set_field ob k v))"

text \<open>\<^verbatim>\<open>if (c) { body }\<close>\<close>

definition guarded :: "bool result \<Rightarrow> (obj \<Rightarrow> obj result) \<Rightarrow> obj \<Rightarrow> obj result" where
  "guarded c body ob = bnd c (\<lambda>b. if b then body ob else Inr ob)"

text \<open>\<^verbatim>\<open>a && b\<close> on conditions: \<open>b\<close> is evaluated only when \<open>a\<close> holds.\<close>

definition and_also :: "bool result \<Rightarrow> bool result \<Rightarrow> bool result" where
  "and_also a b = bnd a (\<lambda>x. if x then b else Inr False)"

text \<open>\<^verbatim>\<open>v.k1.k2...\<close>\<close>

fun getPath :: "jsval \<Rightarrow> string list \<Rightarrow> jsval result" where
  "getPath v [] = Inr v"
| "getPath v (k # ks) = (case getField v k of Inl e \<Rightarrow> Inl e | Inr w \<Rightarrow> getPath w ks)"

text \<open>\<^verbatim>\<open>v.k1.k2... || d\<close>\<close>

definition orDefault :: "jsval \<Rightarrow> string list \<Rightarrow> jsval \<Rightarrow> jsval result" where
  "orDefault v ks d = bnd (getPath v ks) (\<lambda>x. Inr (or_else x d))"

text \<open>
  \<^verbatim>\<open>v.map(f)\<close> and \<^verbatim>\<open>v.filter(p)\<close>: only an array has these methods; anything else
  has no such property or holds data there, and the call is a TypeError.
\<close>

definition js_map :: "(jsval \<Rightarrow> jsval result) \<Rightarrow> jsval \<Rightarrow> jsval result" where
  "js_map f v = (case v of JArr xs \<Rightarrow> bnd (mapM f xs) (\<lambda>ys. Inr (JArr ys)) | _ \<Rightarrow> Inl TypeError)"

definition js_filter :: "(jsval \<Rightarrow> bool result) \<Rightarrow> jsval \<Rightarrow> jsval result" where
  "js_filter p v = (case v of JArr xs \<Rightarrow> bnd (filterM p xs) (\<lambda>ys. Inr (JArr ys)) | _ \<Rightarrow> Inl TypeError)"

text \<open>
  \<^verbatim>\<open>x > 0\<close>. \<^verbatim>\<open>undefined\<close> and \<^verbatim>\<open>NaN\<close> compare false, \<^verbatim>\<open>null\<close> is 0 and
  a boolean is 0 or 1; a string is converted to a number. An array or object is first
  made primitive: the inherited \<^verbatim>\<open>valueOf\<close> returns the value itself (an own
  \<^verbatim>\<open>valueOf\<close> is data and is passed over), so the conversion goes on to
  \<^verbatim>\<open>toString\<close>, which joins an array, prints \<^verbatim>\<open>[object Object]\<close> for an object
  (no number), and is a TypeError where an own \<^verbatim>\<open>toString\<close> hides it.
\<close>

fun gt_zero :: "jsval \<Rightarrow> bool result" where
  "gt_zero JUndef = Inr False"
| "gt_zero JNull = Inr False"
| "gt_zero (JBool b) = Inr b"
| "gt_zero (JNum n) = Inr (0 < n)"
| "gt_zero (JInf negative) = Inr (\<not> negative)"
| "gt_zero JNaN = Inr False"
| "gt_zero (JStr s) = Inr (string_positive s)"
| "gt_zero (JArr xs) =
     (case join_elems xs of Inl e \<Rightarrow> Inl e | Inr s \<Rightarrow> Inr (string_positive s))"
| "gt_zero (JObj kvs) = (if has_key kvs ''toString'' then Inl TypeError else Inr False)"

text \<open>\<^verbatim>\<open>v.length > 0\<close>\<close>

definition length_gt_zero :: "jsval \<Rightarrow> bool result" where
  "length_gt_zero v = bnd (getField v ''length'') gt_zero"

text \<open>
  \<^verbatim>\<open>let pieces = u.split(':'); parseInt(pieces[pieces.length - 1], 10)\<close>: only a
  string has \<^verbatim>\<open>split\<close>.
\<close>

definition last_piece_int :: "jsval \<Rightarrow> jsval result" where
  "last_piece_int u =
     (case u of JStr s \<Rightarrow> Inr (parseInt (last (split_on CHR '':'' s))) | _ \<Rightarrow> Inl TypeError)"

text \<open>
  \<^verbatim>\<open>v.k = x\<close> on a raw value. The module is strict code, so the assignment to a
  primitive throws; an array would receive a named property, which the value type does not
  hold.
\<close>

fun assign_raw :: "jsval \<Rightarrow> string \<Rightarrow> jsval \<Rightarrow> jsval result" where
  "assign_raw (JObj kvs) k x = Inr (JObj (set_field kvs k x))"
| "assign_raw (JArr xs) k x = Inl Unmodelled"
| "assign_raw _ k x = Inl TypeError"

subsection \<open>\<^verbatim>\<open>utils.js\<close>\<close>

text \<open>
  \<^verbatim>\<open>extractRootDomain(domain)\<close>. A host or tld that was never set prints as
  "undefined". An array also has \<^verbatim>\<open>indexOf\<close> (by strict equality on its elements) but
  no \<^verbatim>\<open>substring\<close>.
\<close>

definition extractRootDomain :: "jsval \<Rightarrow> jsval result" where
  "extractRootDomain domain =
     (if \<not> truthy domain then Inr (JStr '''')
      else (case domain of
        JStr s \<Rightarrow>
          (case index_of ''://'' s of
             None \<Rightarrow> Inr (JStr s)
           | Some protocolIndex \<Rightarrow>
               let remainingUrl = drop (protocolIndex + 3) s;
                   domainIndex = (case index_of ''/'' remainingUrl of
                                    None \<Rightarrow> length remainingUrl | Some j \<Rightarrow> j);
                   domainParts = split_on CHR ''.'' (take domainIndex remainingUrl);
                   host = (if length domainParts = 2 then domainParts ! 0
                           else if length domainParts = 3 \<or> length domainParts = 4
                           then domainParts ! 1 else ''undefined'');
                   tld = (if length domainParts = 2 then domainParts ! 1
                          else if length domainParts = 3 then domainParts ! 2
                          else if length domainParts = 4
                          then domainParts ! 2 @ ''.'' @ domainParts ! 3
                          else ''undefined'')
               in Inr (JStr (host @ ''.'' @ tld)))
      | JArr xs \<Rightarrow> (if JStr ''://'' \<in> set xs then Inl TypeError else Inr (JArr xs))
      | _ \<Rightarrow> Inl TypeError))"

subsection \<open>The scrubbing methods\<close>

text \<open>\<^verbatim>\<open>_scrubMemberInfo(member)\<close>\<close>

definition member_field :: "jsval \<Rightarrow> string \<Rightarrow> jsval result" where
  "member_field member name =
     bnd (getField member ''member'') (\<lambda>mm.
       if truthy mm
       then bnd (getField mm name) (\<lambda>v. if truthy v then getPath member [''member'', name]
                                          else Inr (JStr ''''))
       else Inr (JStr ''''))"

definition scrubMemberInfo :: "jsval \<Rightarrow> jsval result" where
  "scrubMemberInfo member =
     (if \<not> truthy member
      then Inr (JObj [(''firstname'', JStr ''''), (''lastname'', JStr ''''),
                      (''occupation'', JStr ''''), (''publicIdentifier'', JStr '''')])
      else
        bnd (steps
              [assign ''firstname'' (member_field member ''firstName''),
               assign ''lastname'' (member_field member ''lastName''),
               assign ''occupation'' (member_field member ''occupation''),
               assign ''publicIdentifier'' (member_field member ''publicIdentifier''),
               guarded (bnd (getField member ''member'') (\<lambda>mm.
                       if truthy mm then hasOwnProperty mm ''picture'' else Inr False))
                 (assign ''picture''
                    (bnd (getPath member [''member'', ''picture'']) scrubPathToResource))]
              [])
          (\<lambda>memberInfo. Inr (JObj memberInfo)))"

text \<open>\<^verbatim>\<open>_scrubPatentInfo(patent)\<close>\<close>

definition scrubPatentInfo :: "jsval \<Rightarrow> jsval result" where
  "scrubPatentInfo patent =
     bnd (steps
           [assign ''applicationNumber'' (orDefault patent [''applicationNumber''] (JStr '''')),
            assign ''description'' (orDefault patent [''description''] (JStr '''')),
            assign ''filingDate'' (orDefault patent [''filingDate''] (JObj [])),
            assign ''issueDate'' (orDefault patent [''issueDate''] (JObj [])),
            assign ''number'' (orDefault patent [''number''] (JStr '''')),
            assign ''pending'' (getField patent ''pending''),
            assign ''title'' (orDefault patent [''title''] (JStr '''')),
            assign ''url'' (orDefault patent [''url''] (JStr '''')),
            guarded (and_also (hasOwnProperty patent ''inventors'')
                           (bnd (getField patent ''inventors'') length_gt_zero))
              (assign ''inventors''
                 (bnd (getField patent ''inventors'') (\<lambda>inventors.
                  bnd (js_filter (\<lambda>inventor. hasOwnProperty inventor ''member'') inventors)
                    (js_map (\<lambda>inventor.
                       bnd (getField inventor ''member'') scrubMemberInfo)))))]
           [])
       (\<lambda>patentInfo. Inr (JObj patentInfo))"

text \<open>\<^verbatim>\<open>_scrubPublicationInfo(publication)\<close>\<close>

definition scrubPublicationInfo :: "jsval \<Rightarrow> jsval result" where
  "scrubPublicationInfo publication =
     bnd (steps
           [assign ''date'' (orDefault publication [''date''] (JObj [])),
            assign ''description'' (orDefault publication [''description''] (JStr '''')),
            assign ''name'' (orDefault publication [''name''] (JStr '''')),
            assign ''publisher'' (orDefault publication [''publisher''] (JStr '''')),
            assign ''url'' (orDefault publication [''url''] (JStr '''')),
            guarded (and_also (hasOwnProperty publication ''authors'')
                           (bnd (getField publication ''authors'') length_gt_zero))
              (assign ''authors''
                 (bnd (getField publication ''authors'') (js_map scrubMemberInfo)))]
           [])
       (\<lambda>publicationInfo. Inr (JObj publicationInfo))"

text \<open>
  \<^verbatim>\<open>_scrubProjectInfo(project)\<close>. The method assigns the scrubbed members to the raw
  \<^verbatim>\<open>project\<close> it was given and returns \<^verbatim>\<open>projectInfo\<close>: the result is the pair of the
  returned record and the raw project as the call leaves it.
\<close>

definition scrubProjectInfo :: "jsval \<Rightarrow> (jsval \<times> jsval) result" where
  "scrubProjectInfo project =
     bnd (steps
           [assign ''description'' (orDefault project [''description''] (JStr '''')),
            assign ''timePeriod'' (orDefault project [''timePeriod''] (JObj [])),
            assign ''title'' (orDefault project [''title''] (JStr '''')),
            assign ''url'' (orDefault project [''url''] (JStr ''''))]
           [])
       (\<lambda>projectInfo.
          bnd (and_also (hasOwnProperty project ''members'')
                        (bnd (getField project ''members'') length_gt_zero))
            (\<lambda>c. if c
                  then bnd (bnd (getField project ''members'') (js_map scrubMemberInfo))
                         (\<lambda>members. bnd (assign_raw project ''members'' members)
                            (\<lambda>project'. Inr (JObj projectInfo, project')))
                  else Inr (JObj projectInfo, project)))"

text \<open>\<^verbatim>\<open>_scrubPositionInfo(position)\<close>\<close>

definition scrubPositionInfo :: "jsval \<Rightarrow> jsval result" where
  "scrubPositionInfo position =
     bnd (bnd (getField position ''companyUrn'') (\<lambda>urn.
            if truthy urn then bnd (getField position ''companyUrn'') last_piece_int
            else Inr (JStr '''')))
       (\<lambda>linkedInCompanyId.
     bnd (steps
           [assign ''locationName'' (orDefault position [''locationName''] (JStr '''')),
            assign ''companyName'' (orDefault position [''companyName''] (JStr '''')),
            assign ''linkedInCompanyId'' (Inr linkedInCompanyId),
            assign ''description'' (orDefault position [''description''] (JStr '''')),
            assign ''timePeriod'' (orDefault position [''timePeriod''] (JObj [])),
            assign ''title'' (orDefault position [''title''] (JStr '''')),
            guarded (hasOwnProperty position ''company'')
              (assign ''company''
                 (bnd (steps
                        [assign ''employeeCountRange''
                           (orDefault position [''company'', ''employeeCountRange''] (JObj [])),
                         assign ''industries''
                           (orDefault position [''company'', ''industries''] (JArr [])),
                         guarded (and_also
                                 (bnd (getField position ''company'')
                                    (\<lambda>c. hasOwnProperty c ''miniCompany''))
                                 (bnd (getPath position [''company'', ''miniCompany''])
                                    (\<lambda>m. hasOwnProperty m ''logo'')))
                           (assign ''logo''
                              (bnd (getPath position [''company'', ''miniCompany'', ''logo''])
                                 scrubPathToResource))]
                        [])
                    (\<lambda>company. Inr (JObj company))))]
           [])
       (\<lambda>positionInfo. Inr (JObj positionInfo)))"

text \<open>\<^verbatim>\<open>_scrubEducationInfo(education)\<close>\<close>

definition scrubEducationInfo :: "jsval \<Rightarrow> jsval result" where
  "scrubEducationInfo education =
     bnd (steps
           [assign ''activities'' (orDefault education [''activities''] (JStr '''')),
            assign ''degreeName'' (orDefault education [''degreeName''] (JStr '''')),
            assign ''fieldOfStudy'' (orDefault education [''fieldOfStudy''] (JStr '''')),
            assign ''timePeriod'' (orDefault education [''timePeriod''] (JObj [])),
            assign ''schoolName'' (orDefault education [''schoolName''] (JStr '''')),
            guarded (hasOwnProperty education ''school'')
              (assign ''school''
                 (bnd (steps
                        [assign ''active''
                           (orDefault education [''school'', ''active''] (JBool False)),
                         assign ''name''
                           (orDefault education [''school'', ''schoolName''] (JStr '''')),
                         guarded (bnd (getField education ''school'')
                                 (\<lambda>s. hasOwnProperty s ''logo''))
                           (assign ''logo''
                              (bnd (getPath education [''school'', ''logo''])
                                 scrubPathToResource))]
                        [])
                    (\<lambda>school. Inr (JObj school))))]
           [])
       (\<lambda>educationInfo. Inr (JObj educationInfo))"

text \<open>\<^verbatim>\<open>_scrubWebsiteInfo(website)\<close>\<close>

definition scrubWebsiteInfo :: "jsval \<Rightarrow> jsval result" where
  "scrubWebsiteInfo website =
     bnd (bnd (getField website ''type'') first_key) (\<lambda>categoryType.
     bnd (steps
           [assign ''website'' (getField website ''url''),
            assign ''type''
              (bnd (getField website ''type'') (\<lambda>t.
               bnd (getProp t categoryType) (\<lambda>variant.
               bnd (getField variant ''category'') (\<lambda>c.
                 Inr (or_else c (JStr ''Portfolio''))))))]
           [])
       (\<lambda>info. Inr (JObj info)))"


text \<open>
  \<^verbatim>\<open>_scrubFullProfileResponse(profile)\<close>, in two parts: the assignments up to the
  websites, and the override of the occupation that ends the method.

  \<^verbatim>\<open>xs.map(f) || []\<close> is \<^verbatim>\<open>xs.map(f)\<close>, an array being truthy; \<open>mapped\<close> keeps
  the operator. The raw projects that \<^verbatim>\<open>_scrubProjectInfo\<close> updates in place are not
  read again by the method, which keeps the returned records only.
\<close>

definition mapped :: "jsval \<Rightarrow> string list \<Rightarrow> (jsval \<Rightarrow> jsval result) \<Rightarrow> jsval result" where
  "mapped v ks f =
     bnd (bnd (getPath v ks) (js_map f)) (\<lambda>ys. Inr (or_else ys (JArr [])))"

definition profile_fields :: "jsval \<Rightarrow> obj result" where
  "profile_fields profile =
     steps
       [assign ''firstname'' (orDefault profile [''profile'', ''firstName''] (JStr '''')),
        assign ''lastname'' (orDefault profile [''profile'', ''lastName''] (JStr '''')),
        assign ''headline'' (orDefault profile [''profile'', ''headline''] (JStr '''')),
        assign ''industryName'' (orDefault profile [''profile'', ''industryName''] (JStr '''')),
        assign ''summary'' (orDefault profile [''profile'', ''summary''] (JStr '''')),
        assign ''location'' (orDefault profile [''profile'', ''locationName''] (JStr '''')),
        assign ''emailAddress'' (orDefault profile [''emailAddress''] (JStr '''')),
        assign ''publicIdentifier'' (getField profile ''publicIdentifier''),
        assign ''occupation''
          (orDefault profile [''profile'', ''miniProfile'', ''occupation''] (JStr '''')),
        assign ''address'' (orDefault profile [''profile'', ''address''] (JStr '''')),
        assign ''birthdate'' (orDefault profile [''birthDateOn''] (JObj [])),
        assign ''phoneNumbers'' (Inr (JArr [])),
        assign ''twitterHandles'' (Inr (JArr [])),
        assign ''picture'' (Inr (JStr '''')),
        guarded (hasOwnProperty profile ''phoneNumbers'')
          (assign ''phoneNumbers'' (getField profile ''phoneNumbers'')),
        guarded (hasOwnProperty profile ''twitterHandles'')
          (assign ''twitterHandles''
             (mapped profile [''twitterHandles''] (\<lambda>twitter. getField twitter ''name''))),
        guarded (and_also
                   (bnd (getField profile ''profile'') (\<lambda>p. hasOwnProperty p ''pictureInfo''))
                   (bnd (getPath profile [''profile'', ''pictureInfo''])
                      (\<lambda>p. hasOwnProperty p ''masterImage'')))
          (assign ''picture''
             (bnd (getPath profile [''profile'', ''pictureInfo'', ''masterImage''])
                (\<lambda>m. bnd (toString m) (\<lambda>s. Inr (JStr (LI_CDN @ s)))))),
        assign ''education'' (mapped profile [''educationView'', ''elements''] scrubEducationInfo),
        assign ''patents'' (mapped profile [''patentView'', ''elements''] scrubPatentInfo),
        assign ''publications''
          (mapped profile [''publicationView'', ''elements''] scrubPublicationInfo),
        assign ''projects''
          (mapped profile [''projectView'', ''elements'']
             (\<lambda>p. bnd (scrubProjectInfo p) (\<lambda>r. Inr (fst r)))),
        assign ''positions'' (mapped profile [''positionView'', ''elements''] scrubPositionInfo),
        assign ''languages''
          (mapped profile [''languageView'', ''elements''] (\<lambda>language. getField language ''name'')),
        assign ''skills''
          (mapped profile [''skillView'', ''elements''] (\<lambda>skill. getField skill ''name'')),
        guarded (and_also (hasOwnProperty profile ''websites'')
                   (bnd (getField profile ''websites'') length_gt_zero))
          (assign ''websites'' (mapped profile [''websites''] scrubWebsiteInfo))]
       [(''source'', JStr ''LinkedIn'')]"

text \<open>
  The filter of the current positions:
  \<^verbatim>\<open>p.hasOwnProperty('timePeriod') && p.timePeriod.hasOwnProperty('startDate')
    && !p.timePeriod.hasOwnProperty('endDate')\<close>
\<close>

definition is_current :: "jsval \<Rightarrow> bool result" where
  "is_current p =
     and_also (hasOwnProperty p ''timePeriod'')
       (and_also (bnd (getField p ''timePeriod'') (\<lambda>t. hasOwnProperty t ''startDate''))
          (bnd (bnd (getField p ''timePeriod'') (\<lambda>t. hasOwnProperty t ''endDate''))
             (\<lambda>b. Inr (\<not> b))))"

definition override_occupation :: "jsval \<Rightarrow> obj \<Rightarrow> obj result" where
  "override_occupation profile socialProfile =
     (if strict_eq (lookup socialProfile ''headline'') (lookup socialProfile ''occupation'')
      then
        bnd (bnd (getPath profile [''positionView'', ''elements'']) (js_filter is_current))
          (\<lambda>filtered.
             let currentPositions = or_else filtered (JArr [])
             in bnd (getField currentPositions ''0'') (\<lambda>first.
                  let currentPosition = or_else first (JObj [])
                  in assign ''occupation'' (orDefault currentPosition [''title''] (JStr ''''))
                       socialProfile))
      else Inr socialProfile)"

definition scrubFullProfileResponse :: "jsval \<Rightarrow> jsval result" where
  "scrubFullProfileResponse profile =
     bnd (profile_fields profile) (\<lambda>socialProfile.
     bnd (override_occupation profile socialProfile) (\<lambda>socialProfile'.
       Inr (JObj socialProfile')))"

subsection \<open>Fetching\<close>

text \<open>
  The network is a parameter: what \<^verbatim>\<open>fetch\<close> does with a URL. The promise rejects
  (\<open>NetworkError\<close>) or resolves with a response, which has its \<^verbatim>\<open>ok\<close> flag and a
  body that \<^verbatim>\<open>res.json()\<close> parses (\<open>Some\<close>) or rejects (\<open>None\<close>). Building the request
  headers from the token is taken to succeed.
\<close>

datatype fetch_result = NetworkError | Response bool "jsval option"

type_synonym network = "string \<Rightarrow> fetch_result"

text \<open>
  \<^verbatim>\<open>_fetchProfileResource(publicIdentifier, resource)\<close>: the URL requested, what
  \<^verbatim>\<open>console.error\<close> received if the \<^verbatim>\<open>catch\<close> ran, and the value the returned
  promise resolves with. The only exception is a synchronous one, from printing the
  arguments into the URL.
\<close>

record fetched =
  url :: string
  logged :: "fetch_result option"
  resolved :: jsval

definition fetchProfileResource :: "network \<Rightarrow> jsval \<Rightarrow> jsval \<Rightarrow> fetched result" where
  "fetchProfileResource net publicIdentifier resource =
     bnd (toString publicIdentifier) (\<lambda>pid.
     bnd (if \<not> truthy resource then Inr ''profileView'' else toString resource) (\<lambda>r.
       let u = BASE_URL @ ''/identity/profiles/'' @ pid @ ''/'' @ r
       in Inr (case net u of
                 Response True (Some body) \<Rightarrow> \<lparr>url = u, logged = None, resolved = body\<rparr>
               | failure \<Rightarrow> \<lparr>url = u, logged = Some failure, resolved = JObj []\<rparr>)))"

text \<open>
  \<^verbatim>\<open>Object.assign(target, src)\<close>: the own enumerable properties of the source, those
  of an array or a string being its indices. Assigning the key \<^verbatim>\<open>__proto__\<close> would
  replace the prototype of the target, which is not followed. The order of the merged
  properties is never enumerated.
\<close>

fun own_props :: "jsval \<Rightarrow> obj" where
  "own_props (JObj kvs) = kvs"
| "own_props (JArr xs) = zip (map show_nat [0..<length xs]) xs"
| "own_props (JStr s) = zip (map show_nat [0..<length s]) (map (\<lambda>c. JStr [c]) s)"
| "own_props _ = []"

definition object_assign :: "obj \<Rightarrow> jsval \<Rightarrow> obj result" where
  "object_assign target src =
     (if has_key (own_props src) ''__proto__'' then Inl Unmodelled
      else Inr (fold (\<lambda>kv t. set_field t (fst kv) (snd kv)) (own_props src) target))"

fun assign_all :: "obj \<Rightarrow> jsval list \<Rightarrow> obj result" where
  "assign_all target [] = Inr target"
| "assign_all target (r # rs) =
     (case object_assign target r of Inl e \<Rightarrow> Inl e | Inr t \<Rightarrow> assign_all t rs)"

text \<open>
  \<^verbatim>\<open>getFullProfile(publicIdentifier)\<close>: the requests issued, what was logged, and how
  the call ends: with an exception thrown to the caller, or with a promise that resolves
  or rejects. The three fetches start in the order of the list; an exception while
  starting them can only come from printing the identifier, before the first request.
  The log lists the failures in the order of the requests (the order in which they
  complete is the network's).
\<close>

datatype outcome = Thrown error | Resolved jsval | Rejected error

record run =
  requests :: "string list"
  console :: "fetch_result list"
  outcome :: outcome

definition resources :: "jsval list" where
  "resources = [JStr ''profileView'', JStr ''profileContactInfo'', JStr ''highlights'']"

definition getFullProfile :: "network \<Rightarrow> jsval \<Rightarrow> run" where
  "getFullProfile net publicIdentifier =
     (if \<not> truthy publicIdentifier
      then \<lparr>requests = [], console = [],
            outcome = Thrown (Error ''a public identifier is required'')\<rparr>
      else
        (case mapM (fetchProfileResource net publicIdentifier) resources of
           Inl e \<Rightarrow> \<lparr>requests = [], console = [], outcome = Thrown e\<rparr>
         | Inr responses \<Rightarrow>
             \<lparr>requests = map url responses,
              console = concat (map (\<lambda>f. case logged f of None \<Rightarrow> [] | Some x \<Rightarrow> [x]) responses),
              outcome =
                (case bnd (assign_all [(''publicIdentifier'', publicIdentifier)]
                             (map resolved responses))
                        (\<lambda>fullProfile. scrubFullProfileResponse (JObj fullProfile)) of
                   Inl e \<Rightarrow> Rejected e
                 | Inr socialProfile \<Rightarrow> Resolved socialProfile)\<rparr>))"

section \<open>Notions used in the statements\<close>

text \<open>A network on which every request fails.\<close>

definition offline :: network where
  "offline = (\<lambda>u. NetworkError)"

text \<open>The three URLs that \<^verbatim>\<open>getFullProfile\<close> requests for an identifier printed as \<open>pid\<close>.\<close>

definition profile_url :: "string \<Rightarrow> string \<Rightarrow> string" where
  "profile_url pid r = BASE_URL @ ''/identity/profiles/'' @ pid @ ''/'' @ r"

text \<open>
  A fetch fails when the promise rejects, when the status is not 2xx, or when the body
  does not parse; \<open>settled\<close> is the parsed body of a fetch that did not fail, and the
  empty object otherwise.
\<close>

fun failed :: "fetch_result \<Rightarrow> bool" where
  "failed NetworkError = True"
| "failed (Response ok body) = (\<not> ok \<or> body = None)"

fun settled :: "fetch_result \<Rightarrow> jsval" where
  "settled (Response True (Some body)) = body"
| "settled _ = JObj []"

text \<open>The property \<open>k\<close> is not among the own properties of the value a fetch settles with.\<close>

definition lacks :: "string \<Rightarrow> fetch_result \<Rightarrow> bool" where
  "lacks k r = (\<not> has_key (own_props (settled r)) k)"


definition field_of :: "jsval \<Rightarrow> string \<Rightarrow> jsval" where
  "field_of v k = (case v of JObj kvs \<Rightarrow> lookup kvs k | _ \<Rightarrow> JUndef)"

text \<open>
  What a statement does to one property of the record under construction: it leaves
  the property as it is, or leaves it present with a given value.
\<close>

definition keeps :: "string \<Rightarrow> (obj \<Rightarrow> obj result) \<Rightarrow> bool" where
  "keeps k s =
     (\<forall>ob ob'. s ob = Inr ob' \<longrightarrow> lookup ob' k = lookup ob k \<and> has_key ob' k = has_key ob k)"

definition sets :: "string \<Rightarrow> jsval \<Rightarrow> (obj \<Rightarrow> obj result) \<Rightarrow> bool" where
  "sets k v s = (\<forall>ob ob'. s ob = Inr ob' \<longrightarrow> lookup ob' k = v \<and> has_key ob' k)"







text \<open>
  The four fields of a scrubbed member as read from \<^verbatim>\<open>m.member\<close>; a member whose
  \<^verbatim>\<open>member\<close> brings no picture (and, where it is an object, no own
  \<^verbatim>\<open>hasOwnProperty\<close>); a list entry on which \<^verbatim>\<open>hasOwnProperty\<close> can be called; and
  the eight fields of a patent that are written before the inventors.
\<close>

definition member_fields :: "jsval \<Rightarrow> obj" where
  "member_fields m =
     [(''firstname'', or_else (field_of (field_of m ''member'') ''firstName'') (JStr '''')),
      (''lastname'', or_else (field_of (field_of m ''member'') ''lastName'') (JStr '''')),
      (''occupation'', or_else (field_of (field_of m ''member'') ''occupation'') (JStr '''')),
      (''publicIdentifier'',
         or_else (field_of (field_of m ''member'') ''publicIdentifier'') (JStr ''''))]"

definition pictureless :: "jsval \<Rightarrow> bool" where
  "pictureless m =
     (case field_of m ''member'' of
        JObj mk \<Rightarrow> \<not> has_key mk ''hasOwnProperty'' \<and> \<not> has_key mk ''picture''
      | _ \<Rightarrow> True)"

definition entry_plain :: "jsval \<Rightarrow> bool" where
  "entry_plain i =
     (case i of
        JObj ik \<Rightarrow> \<not> has_key ik ''hasOwnProperty''
      | JUndef \<Rightarrow> False
      | JNull \<Rightarrow> False
      | _ \<Rightarrow> True)"

definition patent_base :: "obj \<Rightarrow> obj" where
  "patent_base patent =
     [(''applicationNumber'', or_else (lookup patent ''applicationNumber'') (JStr '''')),
      (''description'', or_else (lookup patent ''description'') (JStr '''')),
      (''filingDate'', or_else (lookup patent ''filingDate'') (JObj [])),
      (''issueDate'', or_else (lookup patent ''issueDate'') (JObj [])),
      (''number'', or_else (lookup patent ''number'') (JStr '''')),
      (''pending'', lookup patent ''pending''),
      (''title'', or_else (lookup patent ''title'') (JStr '''')),
      (''url'', or_else (lookup patent ''url'') (JStr ''''))]"


section \<open>Basic facts\<close>

lemma bnd_Inl [simp]: "bnd (Inl e) f = Inl e"
  by (simp add: bnd_def)

lemma bnd_Inr [simp]: "bnd (Inr x) f = f x"
  by (simp add: bnd_def)

lemma toString_TypeError:
  "toString v = Inl e \<Longrightarrow> e = TypeError"
  "join_elems vs = Inl e \<Longrightarrow> e = TypeError"
  by (induction v and vs rule: toString_join_elems.induct)
     (auto split: if_splits sum.splits)

lemma mapM_Inl: "mapM f xs = Inl e \<Longrightarrow> \<exists>x \<in> set xs. f x = Inl e"
  by (induction xs) (auto split: sum.splits)

lemma fetchProfileResource_TypeError:
  "fetchProfileResource net i r = Inl e \<Longrightarrow> e = TypeError"
  by (auto simp: fetchProfileResource_def bnd_def Let_def
           split: sum.splits if_splits dest: toString_TypeError)

lemma fetchProfileResource_string:
  assumes "r \<noteq> []"
  shows "fetchProfileResource net (JStr s) (JStr r) =
           Inr \<lparr>url = profile_url s r,
                logged = (if failed (net (profile_url s r)) then Some (net (profile_url s r))
                          else None),
                resolved = settled (net (profile_url s r))\<rparr>"
proof (cases "net (profile_url s r)")
  case NetworkError
  with assms show ?thesis
    by (simp add: fetchProfileResource_def profile_url_def)
next
  case (Response ok body)
  with assms show ?thesis
    by (cases ok; cases body) (simp_all add: fetchProfileResource_def profile_url_def)
qed

lemma map_of_set_field:
  "map_of (set_field ob k v) k' = (if k' = k then Some v else map_of ob k')"
proof (induction ob)
  case Nil
  then show ?case by simp
next
  case (Cons a ob)
  then show ?case by (cases a) auto
qed

lemma lookup_set_field [simp]:
  "lookup (set_field ob k v) k' = (if k' = k then v else lookup ob k')"
  by (simp add: lookup_def map_of_set_field)

lemma has_key_set_field [simp]:
  "has_key (set_field ob k v) k' = (k' = k \<or> has_key ob k')"
  by (simp add: has_key_def map_of_set_field)

lemma has_key_fold_set_field:
  "has_key (fold (\<lambda>kv t. set_field t (fst kv) (snd kv)) ps t) k = (has_key ps k \<or> has_key t k)"
proof (induction ps arbitrary: t)
  case Nil
  then show ?case by (simp add: has_key_def)
next
  case (Cons p ps)
  have "has_key (p # ps) k = (k = fst p \<or> has_key ps k)"
    by (cases p) (auto simp: has_key_def)
  with Cons show ?case by auto
qed




lemma keeps_steps: "list_all (keeps k) ss \<Longrightarrow> keeps k (steps ss)"
proof (induction ss)
  case Nil
  then show ?case by (simp add: keeps_def)
next
  case (Cons s ss)
  then have s: "keeps k s" and ss: "keeps k (steps ss)" by simp_all
  show ?case
    unfolding keeps_def
  proof (intro allI impI)
    fix ob ob' assume "steps (s # ss) ob = Inr ob'"
    then obtain mid where "s ob = Inr mid" "steps ss mid = Inr ob'"
      by (auto split: sum.splits)
    with s ss show "lookup ob' k = lookup ob k \<and> has_key ob' k = has_key ob k"
      by (simp add: keeps_def)
  qed
qed

lemma sets_assign: "(\<And>x. e = Inr x \<Longrightarrow> x = v) \<Longrightarrow> sets k v (assign k e)"
  by (cases e) (auto simp: sets_def assign_def)

lemma sets_here: "sets k v s \<Longrightarrow> list_all (keeps k) ss \<Longrightarrow> sets k v (steps (s # ss))"
proof -
  assume s: "sets k v s" and "list_all (keeps k) ss"
  then have ss: "keeps k (steps ss)" by (rule_tac keeps_steps)
  show ?thesis
    unfolding sets_def
  proof (intro allI impI)
    fix ob ob' assume "steps (s # ss) ob = Inr ob'"
    then obtain mid where "s ob = Inr mid" "steps ss mid = Inr ob'"
      by (auto split: sum.splits)
    with s ss show "lookup ob' k = v \<and> has_key ob' k"
      by (simp add: keeps_def sets_def)
  qed
qed

lemma sets_later: "sets k v (steps ss) \<Longrightarrow> sets k v (steps (s # ss))"
  by (auto simp: sets_def split: sum.splits)

lemma keeps_later: "keeps k s \<Longrightarrow> keeps k (steps ss) \<Longrightarrow> keeps k (steps (s # ss))"
  using keeps_steps [of k "[s, steps ss]"] by (auto simp: keeps_def split: sum.splits)

lemma setsD: "sets k v s \<Longrightarrow> s ob = Inr ob' \<Longrightarrow> lookup ob' k = v"
  by (simp add: sets_def)

lemma keepsD: "keeps k s \<Longrightarrow> s ob = Inr ob' \<Longrightarrow> lookup ob' k = lookup ob k"
  by (simp add: keeps_def)

lemma keeps_hasD: "keeps k s \<Longrightarrow> s ob = Inr ob' \<Longrightarrow> has_key ob' k = has_key ob k"
  by (simp add: keeps_def)

lemma scrubFullProfileResponse_no_profile:
  "\<not> has_key kvs ''profile'' \<Longrightarrow> scrubFullProfileResponse (JObj kvs) = Inl TypeError"
  by (simp add: scrubFullProfileResponse_def profile_fields_def assign_def orDefault_def
      lookup_def has_key_def)

lemma settled_failed: "failed r \<Longrightarrow> settled r = JObj []"
  by (cases r rule: settled.cases) auto

lemma object_assign_empty [simp]: "object_assign t (JObj []) = Inr t"
  by (simp add: object_assign_def has_key_def)

lemma object_assign_has_key:
  "object_assign t src = Inr t' \<Longrightarrow> has_key t' k = (has_key (own_props src) k \<or> has_key t k)"
  by (auto simp: object_assign_def has_key_fold_set_field split: if_splits)

lemma object_assign_total:
  "\<not> has_key (own_props src) ''__proto__'' \<Longrightarrow> \<exists>t'. object_assign t src = Inr t'"
  by (simp add: object_assign_def)

lemma dec_zero [simp]: "dec ''0'' = 0"
  by (simp add: dec_def digit_val_def)

lemma is_index_zero [simp]: "is_index ''0'' n = (0 < n)"
  by (simp add: is_index_def is_digit_def)

lemma lookup_Nil [simp]: "lookup [] k = JUndef"
  by (simp add: lookup_def)

lemma orDefault_obj [simp]: "orDefault (JObj kvs) [k] d = Inr (or_else (lookup kvs k) d)"
  by (simp add: orDefault_def)

lemma assign_value [simp]: "assign k (Inr v) ob = Inr (set_field ob k v)"
  by (simp add: assign_def)

lemma guarded_value [simp]:
  "guarded (Inr True) body ob = body ob"
  "guarded (Inr False) body ob = Inr ob"
  by (simp_all add: guarded_def)

lemma guarded_Inl [simp]: "guarded (Inl e) body ob = Inl e"
  by (simp add: guarded_def)


lemma length_gt_zero_array [simp]: "length_gt_zero (JArr xs) = Inr (xs \<noteq> [])"
  by (simp add: length_gt_zero_def is_index_def is_digit_def)






lemma has_key_Cons [simp]: "has_key ((k', v) # kvs) k = (k = k' \<or> has_key kvs k)"
  by (auto simp: has_key_def)

lemma has_key_Nil [simp]: "\<not> has_key [] k"
  by (simp add: has_key_def)

lemma lookup_Cons [simp]: "lookup ((k', v) # kvs) k = (if k = k' then v else lookup kvs k)"
  by (simp add: lookup_def)



lemma or_else_absent [simp]: "or_else JUndef d = d"
  by (simp add: or_else_def)


lemma to_double_small [simp]: "n < 2 ^ 53 \<Longrightarrow> to_double n = Some n"
  by (simp add: to_double_def)


section \<open>Urn-to-ID extraction\<close>

lemma split_on_not_Nil [simp]: "split_on c s \<noteq> []"
  by (induction s) (auto split: list.splits)










section \<open>Resource-path resolution\<close>

text \<open>
  Claim C2. On the empty object \<^verbatim>\<open>_scrubPathToResource\<close> does not return the empty
  string: \<^verbatim>\<open>Object.keys(resource)[0]\<close> is \<^verbatim>\<open>undefined\<close>, so is
  \<^verbatim>\<open>resource[key]\<close>, and reading its \<^verbatim>\<open>id\<close> throws a TypeError. On
  \<^verbatim>\<open>{ "original": { "id": "/abc" } }\<close> it returns the CDN base followed by "/abc".
\<close>

theorem scrubPathToResource_empty_object:
  "scrubPathToResource (JObj []) = Inl TypeError \<and>
   scrubPathToResource (JObj [(''original'', JObj [(''id'', JStr ''/abc'')])])
     = Inr (JStr (LI_CDN @ ''/abc''))"
  by (simp add: scrubPathToResource_def getProp_def lookup_def has_key_def or_else_def)


section \<open>The override of the occupation\<close>







section \<open>Failures of the sub-resource fetches\<close>








section \<open>Project scrubbing\<close>

text \<open>
  Claim C5. For a raw project with one member, \<^verbatim>\<open>_scrubProjectInfo\<close> returns a record
  with the four fields description, timePeriod, title and url and no \<^verbatim>\<open>members\<close>
  field; the scrubbed member list is stored on the raw project that was passed in.
\<close>

theorem scrubProjectInfo_members_on_raw:
  "scrubProjectInfo
     (JObj [(''title'', JStr ''P''),
            (''members'', JArr [JObj [(''member'', JObj [(''firstName'', JStr ''Ann'')])]])])
   = Inr (JObj [(''description'', JStr ''''), (''timePeriod'', JObj []),
                (''title'', JStr ''P''), (''url'', JStr '''')],
          JObj [(''title'', JStr ''P''),
                (''members'', JArr [JObj [(''firstname'', JStr ''Ann''), (''lastname'', JStr ''''),
                                          (''occupation'', JStr ''''),
                                          (''publicIdentifier'', JStr '''')]])])"
  by (simp add: scrubProjectInfo_def bnd_def assign_def orDefault_def lookup_def or_else_def
        and_also_def has_key_def length_gt_zero_def js_map_def scrubMemberInfo_def
        member_field_def guarded_def is_index_def is_digit_def)


section \<open>The entry check of the full-profile call\<close>

lemma show_nat_42: "show_nat 42 = ''42''"
  by code_simp

lemma show_number_42: "show_number 42 = ''42''"
  by (simp add: show_number_def show_double_def show_nat_42)

text \<open>
  Claim C6, as the code has it. The check at entry is \<^verbatim>\<open>!publicIdentifier\<close>: for every
  falsy identifier (\<^verbatim>\<open>undefined\<close>, \<^verbatim>\<open>null\<close>, the empty string, 0, \<^verbatim>\<open>NaN\<close>,
  \<^verbatim>\<open>false\<close>) the call throws the "a public identifier is required" error and issues
  no request; for every truthy identifier, a non-empty string or not, it throws no such
  error, and for a non-empty string it issues the three requests.
\<close>

theorem getFullProfile_entry_check:
  "(\<not> truthy publicIdentifier \<longrightarrow>
      getFullProfile net publicIdentifier =
        \<lparr>requests = [], console = [],
         outcome = Thrown (Error ''a public identifier is required'')\<rparr>) \<and>
   (truthy publicIdentifier \<longrightarrow>
      outcome (getFullProfile net publicIdentifier) \<noteq> Thrown (Error msg)) \<and>
   (s \<noteq> [] \<longrightarrow>
      requests (getFullProfile net (JStr s)) =
        [profile_url s ''profileView'', profile_url s ''profileContactInfo'',
         profile_url s ''highlights''])"
proof (intro conjI impI)
  assume "\<not> truthy publicIdentifier"
  then show "getFullProfile net publicIdentifier =
        \<lparr>requests = [], console = [],
         outcome = Thrown (Error ''a public identifier is required'')\<rparr>"
    by (simp add: getFullProfile_def)
next
  assume t: "truthy publicIdentifier"
  show "outcome (getFullProfile net publicIdentifier) \<noteq> Thrown (Error msg)"
  proof (cases "mapM (fetchProfileResource net publicIdentifier) resources")
    case (Inl e)
    then have "e = TypeError"
      by (auto dest!: mapM_Inl fetchProfileResource_TypeError)
    with Inl t show ?thesis by (simp add: getFullProfile_def)
  next
    case (Inr rs)
    with t show ?thesis by (simp add: getFullProfile_def split: sum.splits)
  qed
next
  assume "s \<noteq> []"
  then show "requests (getFullProfile net (JStr s)) =
        [profile_url s ''profileView'', profile_url s ''profileContactInfo'',
         profile_url s ''highlights'']"
    by (simp add: getFullProfile_def resources_def fetchProfileResource_string)
qed

theorem getFullProfile_entry_check_witness:
  "getFullProfile offline (JStr '''') =
     \<lparr>requests = [], console = [],
      outcome = Thrown (Error ''a public identifier is required'')\<rparr> \<and>
   outcome (getFullProfile offline (JNum 42)) \<noteq> Thrown (Error ''a public identifier is required'') \<and>
   requests (getFullProfile offline (JStr ''ann'')) =
     [profile_url ''ann'' ''profileView'', profile_url ''ann'' ''profileContactInfo'',
      profile_url ''ann'' ''highlights'']"
  using getFullProfile_entry_check [of "JStr ''''" offline _ "''ann''"]
        getFullProfile_entry_check [of "JNum 42" offline "''a public identifier is required''" "''ann''"]
  by simp

text \<open>
  The number 42 is not a non-empty string, and the call does not fail at entry for it:
  the three requests go out, with 42 printed into the URL.
\<close>

theorem getFullProfile_truthy_number:
  "outcome (getFullProfile offline (JNum 42)) = Rejected TypeError \<and>
   requests (getFullProfile offline (JNum 42)) =
     [profile_url ''42'' ''profileView'', profile_url ''42'' ''profileContactInfo'',
      profile_url ''42'' ''highlights'']"
  by (simp add: getFullProfile_def resources_def fetchProfileResource_def bnd_def
        profile_url_def Let_def show_number_42 offline_def object_assign_def has_key_def
        scrubFullProfileResponse_def profile_fields_def assign_def orDefault_def lookup_def)


section \<open>Website scrubbing\<close>

text \<open>
  Claim C8. For a raw website whose \<^verbatim>\<open>type\<close> mapping has the first key \<open>k\<close> with
  the variant \<open>v\<close>, the normalized type is the \<^verbatim>\<open>category\<close> of \<open>v\<close> when that is
  truthy and "Portfolio" otherwise; in particular it is "Portfolio" when the variant has
  no category.
\<close>

theorem scrubWebsiteInfo_type:
  assumes "lookup kvs ''type'' = JObj ((k, v) # rest)"
    and "getField v ''category'' = Inr c"
  shows "scrubWebsiteInfo (JObj kvs) =
           Inr (JObj [(''website'', lookup kvs ''url''),
                      (''type'', or_else c (JStr ''Portfolio''))]) \<and>
         (c = JUndef \<longrightarrow>
            scrubWebsiteInfo (JObj kvs) =
              Inr (JObj [(''website'', lookup kvs ''url''), (''type'', JStr ''Portfolio'')]))"
  using assms
  by (simp add: scrubWebsiteInfo_def bnd_def assign_def getProp_def lookup_def or_else_def)

theorem scrubWebsiteInfo_type_witness:
  "lookup [(''url'', JStr ''http://a.b''), (''type'', JObj [(''com.linkedin.StandardWebsite'', JObj [])])] ''type''
     = JObj [(''com.linkedin.StandardWebsite'', JObj [])] \<and>
   getField (JObj []) ''category'' = Inr JUndef \<and>
   scrubWebsiteInfo (JObj [(''url'', JStr ''http://a.b''),
                           (''type'', JObj [(''com.linkedin.StandardWebsite'', JObj [])])])
     = Inr (JObj [(''website'', JStr ''http://a.b''), (''type'', JStr ''Portfolio'')])"
  using scrubWebsiteInfo_type
    [of "[(''url'', JStr ''http://a.b''), (''type'', JObj [(''com.linkedin.StandardWebsite'', JObj [])])]"
        "''com.linkedin.StandardWebsite''" "JObj []" "[]" JUndef]
  by (simp add: lookup_def or_else_def)


section \<open>A profile without the profile view\<close>

text \<open>
  Claim C9. A merged structure without a top-level \<^verbatim>\<open>profile\<close> property makes
  \<^verbatim>\<open>_scrubFullProfileResponse\<close> throw a TypeError (the read of \<^verbatim>\<open>firstName\<close> of
  \<^verbatim>\<open>undefined\<close>). This is the structure that \<^verbatim>\<open>getFullProfile\<close> merges when the
  profile-view fetch fails and neither of the other two responses brings a \<^verbatim>\<open>profile\<close>
  property: the promise then rejects with that TypeError.
\<close>

theorem missing_profile_view_rejects:
  "(\<not> has_key kvs ''profile'' \<longrightarrow> scrubFullProfileResponse (JObj kvs) = Inl TypeError) \<and>
   (s \<noteq> [] \<and> failed (net (profile_url s ''profileView'')) \<and>
    lacks ''profile'' (net (profile_url s ''profileContactInfo'')) \<and>
    lacks ''__proto__'' (net (profile_url s ''profileContactInfo'')) \<and>
    lacks ''profile'' (net (profile_url s ''highlights'')) \<and>
    lacks ''__proto__'' (net (profile_url s ''highlights'')) \<longrightarrow>
      outcome (getFullProfile net (JStr s)) = Rejected TypeError)"
proof (intro conjI impI)
  assume "\<not> has_key kvs ''profile''"
  then show "scrubFullProfileResponse (JObj kvs) = Inl TypeError"
    by (rule scrubFullProfileResponse_no_profile)
next
  let ?c = "settled (net (profile_url s ''profileContactInfo''))"
  let ?h = "settled (net (profile_url s ''highlights''))"
  let ?t = "[(''publicIdentifier'', JStr s)]"
  assume a: "s \<noteq> [] \<and> failed (net (profile_url s ''profileView'')) \<and>
    lacks ''profile'' (net (profile_url s ''profileContactInfo'')) \<and>
    lacks ''__proto__'' (net (profile_url s ''profileContactInfo'')) \<and>
    lacks ''profile'' (net (profile_url s ''highlights'')) \<and>
    lacks ''__proto__'' (net (profile_url s ''highlights''))"
  then obtain t1 where t1: "object_assign ?t ?c = Inr t1"
    using object_assign_total [of ?c ?t] by (auto simp: lacks_def)
  from a obtain t2 where t2: "object_assign t1 ?h = Inr t2"
    using object_assign_total [of ?h t1] by (auto simp: lacks_def)
  have "\<not> has_key t1 ''profile''"
    using a object_assign_has_key [OF t1, of "''profile''"] by (simp add: lacks_def has_key_def)
  then have "\<not> has_key t2 ''profile''"
    using a object_assign_has_key [OF t2, of "''profile''"] by (simp add: lacks_def)
  then have "scrubFullProfileResponse (JObj t2) = Inl TypeError"
    by (rule scrubFullProfileResponse_no_profile)
  with a t1 t2 show "outcome (getFullProfile net (JStr s)) = Rejected TypeError"
    by (simp add: getFullProfile_def resources_def fetchProfileResource_string settled_failed)
qed

theorem missing_profile_view_rejects_witness:
  "scrubFullProfileResponse (JObj [(''publicIdentifier'', JStr ''ann'')]) = Inl TypeError \<and>
   outcome (getFullProfile offline (JStr ''ann'')) = Rejected TypeError"
  using missing_profile_view_rejects [of "[(''publicIdentifier'', JStr ''ann'')]" "''ann''" offline]
  by (simp add: has_key_def offline_def lacks_def)


section \<open>Patent inventors\<close>








section \<open>Defaults of absent fields\<close>

lemma and_also_value [simp]:
  "and_also (Inr True) c = c"
  "and_also (Inr False) c = Inr False"
  "and_also (Inl e) c = Inl e"
  by (simp_all add: and_also_def)






lemma scrubIdFromUrn_falsy [simp]: "\<not> truthy u \<Longrightarrow> scrubIdFromUrn u = Inr (JStr '''')"
  by (simp add: scrubIdFromUrn_def)

lemma extractRootDomain_falsy [simp]: "\<not> truthy u \<Longrightarrow> extractRootDomain u = Inr (JStr '''')"
  by (simp add: extractRootDomain_def)











end
